theory Spec2Isabelle
  imports Main "HOL-Library.Signed_Division" "HOL-Library.Mapping" "HOL-Library.Word"
begin

section \<open>Outcomes of a Go call\<close>

text \<open>
  A Go \<^verbatim>\<open>error\<close> built with \<^verbatim>\<open>errors.New\<close> (or coming from a library) is
  represented by its message.  A function with the result list \<^verbatim>\<open>(T, error)\<close> returns a
  pair of a value and an optional error (\<open>None\<close> is \<^verbatim>\<open>nil\<close>).  A call either returns
  (\<open>Done\<close>) or panics (\<open>Panic\<close>); nothing in \<^verbatim>\<open>call_template_data.go\<close> recovers a panic.
\<close>

type_synonym error = string

datatype panic =
    IndexOutOfRange
  | SliceBoundsOutOfRange
  | MakesliceCapOutOfRange
  | InvalidArgumentToIntn
  | TemplateMust error

datatype 'a run = Done 'a | Panic panic

section \<open>Go integers, slices and the random source\<close>

text \<open>
  Go's \<^verbatim>\<open>int\<close> and \<^verbatim>\<open>int64\<close> are taken to be 64-bit two's complement integers:
  a value is an \<open>int\<close> in the range of \<open>is_int\<close>, and every sum and difference is wrapped by
  \<open>wrap64\<close>.  Go's \<^verbatim>\<open>/\<close> and \<^verbatim>\<open>%\<close> truncate towards zero: they are \<open>sdiv\<close> and
  \<open>smod\<close>.
\<close>

definition is_int :: "int \<Rightarrow> bool" where
  "is_int x = (- (2 ^ 63) \<le> x \<and> x < 2 ^ 63)"

definition wrap64 :: "int \<Rightarrow> int" where
  "wrap64 x = signed_take_bit 63 x"

text \<open>
  The index expression \<^verbatim>\<open>xs[i]\<close> panics outside \<open>0 \<le> i < len(xs)\<close>.  The slice
  expression \<^verbatim>\<open>xs[lo:hi]\<close> panics unless \<open>0 \<le> lo \<le> hi \<le> cap(xs)\<close>; a slice is modelled
  by the list of its \<open>len(xs)\<close> elements, and the bound checked here is the length.  The
  two checks differ only for \<open>lo \<le> hi\<close> with \<open>len(xs) < hi\<close>, which none of the callers
  below can produce from a draw of the random source.
\<close>

definition index_expr :: "'a list \<Rightarrow> int \<Rightarrow> 'a run" where
  "index_expr xs i =
     (if 0 \<le> i \<and> i < int (length xs) then Done (xs ! nat i) else Panic IndexOutOfRange)"

definition slice_expr :: "'a list \<Rightarrow> int \<Rightarrow> int \<Rightarrow> 'a list run" where
  "slice_expr xs lo hi =
     (if 0 \<le> lo \<and> lo \<le> hi \<and> hi \<le> int (length xs)
      then Done (take (nat (hi - lo)) (drop (nat lo) xs))
      else Panic SliceBoundsOutOfRange)"

text \<open>
  \<^verbatim>\<open>rand.Intn(n)\<close> panics for \<open>n \<le> 0\<close> and otherwise returns some \<open>r\<close> with
  \<open>0 \<le> r < n\<close>.  The value drawn is an explicit argument \<open>r\<close> of the model; \<open>drawn n r\<close>
  says that \<open>r\<close> is a value the generator can return for \<open>n\<close>.
\<close>

definition Intn :: "int \<Rightarrow> int \<Rightarrow> int run" where
  "Intn n r = (if n \<le> 0 then Panic InvalidArgumentToIntn else Done r)"

definition drawn :: "int \<Rightarrow> int \<Rightarrow> bool" where
  "drawn n r = (0 \<le> r \<and> r < n)"

text \<open>\<^verbatim>\<open>strconv.Itoa\<close>: the decimal digits, after a minus sign for a negative number.\<close>

fun udec :: "nat \<Rightarrow> string" where
  "udec n =
     (if n < 10 then [''0123456789'' ! n]
      else udec (n div 10) @ [''0123456789'' ! (n mod 10)])"

declare udec.simps [simp del]

definition Itoa :: "int \<Rightarrow> string" where
  "Itoa i = (if i < 0 then CHR ''-'' # udec (nat (- i)) else udec (nat i))"

section \<open>The call template data and its construction\<close>

record callTemplateData =
  WorkerID :: string
  RequestNumber :: int
  FullyQualifiedName :: string
  MethodName :: string
  ServiceName :: string
  InputName :: string
  OutputName :: string
  IsClientStreaming :: bool
  IsServerStreaming :: bool
  Timestamp :: string
  TimestampUnix :: int
  TimestampUnixMilli :: int
  TimestampUnixNano :: int
  UUID :: string

text \<open>
  The collaborators of \<^verbatim>\<open>newCallTemplateData\<close> belong to other packages.  A resolved
  \<^verbatim>\<open>*desc.MethodDescriptor\<close> is the record of what its getters return (a nil descriptor
  is not a value of this type); \<^verbatim>\<open>time.Now()\<close> is the record of the three readings taken
  from it; \<^verbatim>\<open>uuid.NewRandom()\<close> is the pair it returns, a \<^verbatim>\<open>[16]byte\<close> value and an
  error.  \<^verbatim>\<open>UUID.String\<close> of \<^verbatim>\<open>github.com/google/uuid\<close> writes the bytes in hexadecimal,
  in groups of 4, 2, 2, 2 and 6 bytes separated by hyphens, and \<^verbatim>\<open>uuid.Nil\<close> is the
  all-zero value.
\<close>

record MessageDescriptor =
  msg_GetName :: string

record ServiceDescriptor =
  svc_GetName :: string

record MethodDescriptor =
  GetFullyQualifiedName :: string
  GetName :: string
  GetService :: ServiceDescriptor
  GetInputType :: MessageDescriptor
  GetOutputType :: MessageDescriptor
  mtd_IsClientStreaming :: bool
  mtd_IsServerStreaming :: bool

record Time =
  Format_RFC3339 :: string
  Unix :: int
  UnixNano :: int

type_synonym uuid = "8 word list"

definition Nil_uuid :: uuid where
  "Nil_uuid = replicate 16 0"

definition hex_Encode :: "8 word list \<Rightarrow> string" where
  "hex_Encode bs =
     concat (map (\<lambda>b. [''0123456789abcdef'' ! (unat b div 16),
                        ''0123456789abcdef'' ! (unat b mod 16)]) bs)"

definition uuid_String :: "uuid \<Rightarrow> string" where
  "uuid_String u =
     hex_Encode (take 4 u) @ ''-'' @ hex_Encode (take 2 (drop 4 u)) @ ''-''
       @ hex_Encode (take 2 (drop 6 u)) @ ''-'' @ hex_Encode (take 2 (drop 8 u)) @ ''-''
       @ hex_Encode (drop 10 u)"

text \<open>
  \<^verbatim>\<open>newCallTemplateData\<close>: \<open>now\<close> is the clock reading and \<open>NewRandom\<close> the pair
  returned by the identifier generator, whose error component is dropped by the source.
\<close>

definition newCallTemplateData ::
  "MethodDescriptor \<Rightarrow> string \<Rightarrow> int \<Rightarrow> Time \<Rightarrow> uuid \<times> error option \<Rightarrow> callTemplateData" where
  "newCallTemplateData mtd workerID reqNum now NewRandom =
     (let (newUUID, _) = NewRandom
      in \<lparr> WorkerID = workerID,
           RequestNumber = reqNum,
           FullyQualifiedName = GetFullyQualifiedName mtd,
           MethodName = GetName mtd,
           ServiceName = svc_GetName (GetService mtd),
           InputName = msg_GetName (GetInputType mtd),
           OutputName = msg_GetName (GetOutputType mtd),
           IsClientStreaming = mtd_IsClientStreaming mtd,
           IsServerStreaming = mtd_IsServerStreaming mtd,
           Timestamp = Format_RFC3339 now,
           TimestampUnix = Unix now,
           TimestampUnixMilli = wrap64 (UnixNano now sdiv 1000000),
           TimestampUnixNano = UnixNano now,
           UUID = uuid_String newUUID \<rparr>)"

section \<open>The function library of \<^verbatim>\<open>execute\<close>\<close>

text \<open>
  \<^verbatim>\<open>"Range"\<close>.  \<^verbatim>\<open>make([]string, 0, n)\<close> panics at run time when \<open>n\<close> is negative (the
  length 0 is then larger than the capacity); limits on the size of an allocation are not
  modelled.  The loop adds \<open>step\<close> with wrap-around, so it need not end: \<open>Range_loop\<close>
  is \<open>None\<close> when it does not, and so is \<open>Range\<close>.
\<close>

partial_function (option) Range_loop ::
  "int \<Rightarrow> int \<Rightarrow> int \<Rightarrow> string list \<Rightarrow> string list option" where
  "Range_loop start end step res =
     (if start < end then Range_loop (wrap64 (start + step)) end step (res @ [Itoa start])
      else Some res)"

definition Range :: "int \<Rightarrow> int \<Rightarrow> int \<Rightarrow> string list run option" where
  "Range start end step =
     (if step \<le> 0 \<or> start \<ge> step then Some (Done [])
      else
        let cap = wrap64 (wrap64 (wrap64 (end - start) sdiv step) + 1)
        in if cap < 0 then Some (Panic MakesliceCapOutOfRange)
           else map_option Done (Range_loop start end step []))"

text \<open>\<^verbatim>\<open>"RandomSlice"\<close>: \<open>r1\<close> and \<open>r2\<close> are the two draws, in the order of the source.\<close>

definition RandomSlice :: "string list \<Rightarrow> int \<Rightarrow> int \<Rightarrow> (string list \<times> error option) run" where
  "RandomSlice values r1 r2 =
     (if int (length values) < 1 then Done ([], Some ''values is empty'')
      else
        case Intn (int (length values)) r1 of
          Panic p \<Rightarrow> Panic p
        | Done start \<Rightarrow>
            (case Intn (int (length values)) r2 of
               Panic p \<Rightarrow> Panic p
             | Done end \<Rightarrow>
                 let (start, end) =
                   (if start > end then (end, start)
                    else if start = end then
                      (if start = 0 then (start, wrap64 (end + 1))
                       else (wrap64 (start - 1), end))
                    else (start, end))
                 in (case slice_expr values start end of
                       Panic p \<Rightarrow> Panic p
                     | Done s \<Rightarrow> Done (s, None))))"

text \<open>\<^verbatim>\<open>"RandomSliceK"\<close>: \<open>r\<close> is the draw.\<close>

definition RandomSliceK :: "string list \<Rightarrow> int \<Rightarrow> int \<Rightarrow> (string list \<times> error option) run" where
  "RandomSliceK values k r =
     (if int (length values) < k then Done ([], Some ''values must be longer than k'')
      else if int (length values) = k then Done (values, None)
      else
        case Intn (wrap64 (int (length values) - k)) r of
          Panic p \<Rightarrow> Panic p
        | Done start \<Rightarrow>
            let end = wrap64 (start + k)
            in (case slice_expr values start end of
                  Panic p \<Rightarrow> Panic p
                | Done s \<Rightarrow> Done (s, None)))"

text \<open>\<^verbatim>\<open>"RoundRobin"\<close> closes over the call template data \<open>td\<close>.\<close>

definition RoundRobin :: "callTemplateData \<Rightarrow> string list \<Rightarrow> (string \<times> error option) run" where
  "RoundRobin td values =
     (if int (length values) < 1 then Done ([], Some ''values is empty'')
      else
        case index_expr values (RequestNumber td smod int (length values)) of
          Panic p \<Rightarrow> Panic p
        | Done v \<Rightarrow> Done (v, None))"

section \<open>Rendering\<close>

text \<open>
  \<^verbatim>\<open>text/template\<close> and \<^verbatim>\<open>encoding/json\<close> are parameters of the model.  An \<open>engine\<close>
  stands for the template package with the function map of \<^verbatim>\<open>execute\<close> installed:
  \<open>Parse\<close> is \<^verbatim>\<open>template.New(...).Funcs(...).Parse\<close>, which returns a parsed template
  or an error, and \<open>Execute\<close> is \<^verbatim>\<open>t.Execute(&tpl, td)\<close>, which returns the bytes written
  to the buffer together with an optional error.  \<^verbatim>\<open>template.Must\<close> panics on the error
  of \<open>Parse\<close>.  The decoder \<open>Unmarshal\<close> stands for \<^verbatim>\<open>json.Unmarshal\<close> into a nil
  \<^verbatim>\<open>map[string]string\<close>: an error, or the map it has filled (a nil map is the empty
  mapping).  The list \<open>parsed\<close> is threaded through to record each text handed to the
  parser.
\<close>

record 't engine =
  Parse :: "string \<Rightarrow> error + 't"
  Execute :: "'t \<Rightarrow> callTemplateData \<Rightarrow> string \<times> error option"

definition execute ::
  "'t engine \<Rightarrow> callTemplateData \<Rightarrow> string \<Rightarrow> string list
     \<Rightarrow> (string \<times> error option) run \<times> string list" where
  "execute eng td data parsed =
     (case Parse eng data of
        Inl err \<Rightarrow> (Panic (TemplateMust err), parsed @ [data])
      | Inr t \<Rightarrow> (Done (Execute eng t td), parsed @ [data]))"

definition executeData ::
  "'t engine \<Rightarrow> callTemplateData \<Rightarrow> string \<Rightarrow> string list
     \<Rightarrow> (string \<times> error option) run \<times> string list" where
  "executeData eng td data parsed =
     (if length data > 0 then
        let input = data
        in (case execute eng td data parsed of
              (Panic p, parsed') \<Rightarrow> (Panic p, parsed')
            | (Done (tpl, err), parsed') \<Rightarrow>
                let input = (if err = None then tpl else input)
                in (Done (input, None), parsed'))
      else (Done ([], None), parsed))"

definition executeMetadata ::
  "'t engine \<Rightarrow> (string \<Rightarrow> error + (string, string) mapping) \<Rightarrow> callTemplateData \<Rightarrow> string
     \<Rightarrow> string list
     \<Rightarrow> ((string, string) mapping option \<times> error option) run \<times> string list" where
  "executeMetadata eng Unmarshal td metadata parsed =
     (let mdMap = Mapping.empty
      in if length metadata > 0 then
           let input = metadata
           in (case execute eng td metadata parsed of
                 (Panic p, parsed') \<Rightarrow> (Panic p, parsed')
               | (Done (tpl, err), parsed') \<Rightarrow>
                   let input = (if err = None then tpl else input)
                   in (case Unmarshal input of
                         Inl err \<Rightarrow> (Done (None, Some err), parsed')
                       | Inr mdMap \<Rightarrow> (Done (Some mdMap, None), parsed')))
         else (Done (Some mdMap, None), parsed))"

section \<open>The arithmetic progression of the specification\<close>

text \<open>
  The values \<open>start, start + step, start + 2 * step, \<dots>\<close> that are strictly less than
  \<open>end\<close>, over the unbounded integers.
\<close>

function progression :: "int \<Rightarrow> int \<Rightarrow> int \<Rightarrow> int list" where
  "progression start end step =
     (if 0 < step \<and> start < end then start # progression (start + step) end step else [])"
  by pat_completeness auto
termination
  by (relation "measure (\<lambda>(start, end, step). nat (end - start))") auto

declare progression.simps [simp del]

section \<open>Concrete inputs\<close>

definition sample_td :: callTemplateData where
  "sample_td =
     \<lparr> WorkerID = ''w1'', RequestNumber = 4,
       FullyQualifiedName = ''helloworld.Greeter.SayHello'', MethodName = ''SayHello'',
       ServiceName = ''Greeter'', InputName = ''HelloRequest'', OutputName = ''HelloReply'',
       IsClientStreaming = False, IsServerStreaming = False,
       Timestamp = ''2019-06-01T10:00:00Z'', TimestampUnix = 1559383200,
       TimestampUnixMilli = 1559383200000, TimestampUnixNano = 1559383200000000000,
       UUID = ''7c9e6679-7425-40de-944b-e07fc1f90ae7'' \<rparr>"

definition sample_mtd :: MethodDescriptor where
  "sample_mtd =
     \<lparr> GetFullyQualifiedName = ''helloworld.Greeter.SayHello'', GetName = ''SayHello'',
       GetService = \<lparr> svc_GetName = ''Greeter'' \<rparr>,
       GetInputType = \<lparr> msg_GetName = ''HelloRequest'' \<rparr>,
       GetOutputType = \<lparr> msg_GetName = ''HelloReply'' \<rparr>,
       mtd_IsClientStreaming = False, mtd_IsServerStreaming = False \<rparr>"

definition sample_now :: Time where
  "sample_now =
     \<lparr> Format_RFC3339 = ''2019-06-01T10:00:00Z'', Unix = 1559383200,
       UnixNano = 1559383200000000000 \<rparr>"

text \<open>
  A small engine and a small decoder, to run the rendering functions on concrete
  templates.  \<open>field_engine\<close> knows literal text and actions of the form \<open>{{.Name}}\<close>:
  as in \<^verbatim>\<open>text/template\<close>, a left delimiter without a right delimiter is a parse error
  (an unclosed action), the name of a field is looked up only when the template is
  executed, and an unknown field stops the execution with an error after the text
  before it has been written.  Every other action is rejected by its \<open>Parse\<close>, which
  \<^verbatim>\<open>text/template\<close> does not do.  \<open>flat_json\<close> decodes an object whose keys and values
  are strings of printable ASCII characters without escapes and without white space
  between the tokens, as \<^verbatim>\<open>encoding/json\<close> does, and rejects every other input.
\<close>

datatype node = TextNode string | ActionNode string

fun scan :: "bool \<Rightarrow> string \<Rightarrow> node list \<Rightarrow> string \<Rightarrow> error + node list" where
  "scan inside acc nodes [] =
     (if inside then Inl ''unclosed action'' else Inr (nodes @ [TextNode acc]))"
| "scan inside acc nodes [c] =
     (if inside then Inl ''unclosed action'' else Inr (nodes @ [TextNode (acc @ [c])]))"
| "scan inside acc nodes (c # d # rest) =
     (if \<not> inside \<and> c = CHR ''{'' \<and> d = CHR ''{''
      then scan True [] (nodes @ [TextNode acc]) rest
      else if inside \<and> c = CHR ''}'' \<and> d = CHR ''}''
      then scan False [] (nodes @ [ActionNode acc]) rest
      else scan inside (acc @ [c]) nodes (d # rest))"

definition letter :: "char \<Rightarrow> bool" where
  "letter c = ((65 \<le> (of_char c :: nat) \<and> (of_char c :: nat) \<le> 90)
             \<or> (97 \<le> (of_char c :: nat) \<and> (of_char c :: nat) \<le> 122))"

fun field_action :: "node \<Rightarrow> bool" where
  "field_action (TextNode s) = True"
| "field_action (ActionNode a) =
     (case a of [] \<Rightarrow> False | c # name \<Rightarrow> c = CHR ''.'' \<and> name \<noteq> [] \<and> list_all letter name)"

definition field_Parse :: "string \<Rightarrow> error + node list" where
  "field_Parse data =
     (case scan False [] [] data of
        Inl err \<Rightarrow> Inl err
      | Inr nodes \<Rightarrow>
          if list_all field_action nodes then Inr nodes else Inl ''unsupported action'')"

definition field_value :: "callTemplateData \<Rightarrow> string \<Rightarrow> string option" where
  "field_value td name =
     (if name = ''WorkerID'' then Some (WorkerID td)
      else if name = ''RequestNumber'' then Some (Itoa (RequestNumber td))
      else if name = ''FullyQualifiedName'' then Some (FullyQualifiedName td)
      else if name = ''MethodName'' then Some (MethodName td)
      else if name = ''ServiceName'' then Some (ServiceName td)
      else if name = ''InputName'' then Some (InputName td)
      else if name = ''OutputName'' then Some (OutputName td)
      else if name = ''IsClientStreaming''
        then Some (if IsClientStreaming td then ''true'' else ''false'')
      else if name = ''IsServerStreaming''
        then Some (if IsServerStreaming td then ''true'' else ''false'')
      else if name = ''Timestamp'' then Some (Timestamp td)
      else if name = ''TimestampUnix'' then Some (Itoa (TimestampUnix td))
      else if name = ''TimestampUnixMilli'' then Some (Itoa (TimestampUnixMilli td))
      else if name = ''TimestampUnixNano'' then Some (Itoa (TimestampUnixNano td))
      else if name = ''UUID'' then Some (UUID td)
      else None)"

fun field_Execute :: "node list \<Rightarrow> callTemplateData \<Rightarrow> string \<Rightarrow> string \<times> error option" where
  "field_Execute [] td buf = (buf, None)"
| "field_Execute (TextNode s # ns) td buf = field_Execute ns td (buf @ s)"
| "field_Execute (ActionNode a # ns) td buf =
     (case field_value td (tl a) of
        None \<Rightarrow> (buf, Some (''cannot evaluate field '' @ tl a))
      | Some v \<Rightarrow> field_Execute ns td (buf @ v))"

definition field_engine :: "node list engine" where
  "field_engine = \<lparr> Parse = field_Parse, Execute = (\<lambda>t td. field_Execute t td []) \<rparr>"

datatype jstate =
    JOpen | JFirst | JKey string | JColon string | JValOpen string | JVal string string
  | JNext | JMore | JClosed | JBad

definition plain :: "char \<Rightarrow> bool" where
  "plain c =
     (32 \<le> (of_char c :: nat) \<and> (of_char c :: nat) < 127 \<and> c \<noteq> CHR 0x22 \<and> c \<noteq> CHR 0x5C)"

fun jstep ::
  "jstate \<times> (string, string) mapping \<Rightarrow> char \<Rightarrow> jstate \<times> (string, string) mapping" where
  "jstep (JOpen, m) c = (if c = CHR ''{'' then (JFirst, m) else (JBad, m))"
| "jstep (JFirst, m) c =
     (if c = CHR 0x22 then (JKey [], m) else if c = CHR ''}'' then (JClosed, m) else (JBad, m))"
| "jstep (JKey k, m) c =
     (if c = CHR 0x22 then (JColon k, m)
      else if plain c then (JKey (k @ [c]), m) else (JBad, m))"
| "jstep (JColon k, m) c = (if c = CHR '':'' then (JValOpen k, m) else (JBad, m))"
| "jstep (JValOpen k, m) c = (if c = CHR 0x22 then (JVal k [], m) else (JBad, m))"
| "jstep (JVal k v, m) c =
     (if c = CHR 0x22 then (JNext, Mapping.update k v m)
      else if plain c then (JVal k (v @ [c]), m) else (JBad, m))"
| "jstep (JNext, m) c =
     (if c = CHR '','' then (JMore, m) else if c = CHR ''}'' then (JClosed, m) else (JBad, m))"
| "jstep (JMore, m) c = (if c = CHR 0x22 then (JKey [], m) else (JBad, m))"
| "jstep (JClosed, m) c = (JBad, m)"
| "jstep (JBad, m) c = (JBad, m)"

definition flat_json :: "string \<Rightarrow> error + (string, string) mapping" where
  "flat_json input =
     (case foldl jstep (JOpen, Mapping.empty) input of
        (JClosed, m) \<Rightarrow> Inr m
      | _ \<Rightarrow> Inl ''invalid character in JSON object'')"

text \<open>
  Two metadata templates: an object with the key \<open>k\<close> whose value is the action
  \<open>{{.WorkerID}}\<close>, and the same object with the action \<open>{{.Nope}}\<close>, which names no field
  of the call template data.  \<open>dq\<close> is the double quote.
\<close>

definition dq :: string where
  "dq = [CHR 0x22]"

definition md_worker :: string where
  "md_worker = ''{'' @ dq @ ''k'' @ dq @ '':'' @ dq @ ''{{.WorkerID}}'' @ dq @ ''}''"

definition md_unknown :: string where
  "md_unknown = ''{'' @ dq @ ''k'' @ dq @ '':'' @ dq @ ''{{.Nope}}'' @ dq @ ''}''"

section \<open>Arithmetic facts\<close>

lemma wrap64_id: "is_int x \<Longrightarrow> wrap64 x = x"
  by (simp add: is_int_def wrap64_def signed_take_bit_int_eq_self)

lemma smod_nonneg: "0 \<le> a \<Longrightarrow> 0 < b \<Longrightarrow> (a::int) smod b = a mod b"
  by (simp add: signed_modulo_int_def sgn_if)

lemma smod_neg: "a < 0 \<Longrightarrow> 0 < b \<Longrightarrow> (a::int) smod b = - ((- a) mod b)"
  by (simp add: signed_modulo_int_def sgn_if)

lemma wrap64_range: "is_int (wrap64 x)"
  unfolding is_int_def wrap64_def
  using signed_take_bit_int_greater_eq_minus_exp [of 63 x] signed_take_bit_int_less_exp [of 63 x]
  by simp

lemma window_split: "xs = take a xs @ take b (drop a xs) @ drop b (drop a xs)"
  by (simp only: append_take_drop_id)

section \<open>RoundRobin\<close>

lemma RoundRobin_nonneg:
  assumes "values \<noteq> []" "0 \<le> RequestNumber td"
  shows "RoundRobin td values
           = Done (values ! nat (RequestNumber td mod int (length values)), None)"
proof -
  let ?n = "int (length values)"
  from assms(1) have pos: "0 < ?n" by simp
  have eq: "RequestNumber td smod ?n = RequestNumber td mod ?n"
    using assms(2) pos by (rule smod_nonneg)
  have "0 \<le> RequestNumber td mod ?n" "RequestNumber td mod ?n < ?n"
    using pos by simp_all
  then show ?thesis
    using pos by (simp add: RoundRobin_def index_expr_def eq)
qed

lemma RoundRobin_visits:
  "map (\<lambda>n. RoundRobin (td\<lparr>RequestNumber := int n\<rparr>) values) [0..<length values]
     = map (\<lambda>v. Done (v, None)) values"
proof (rule nth_equalityI)
  show "length (map (\<lambda>n. RoundRobin (td\<lparr>RequestNumber := int n\<rparr>) values) [0..<length values])
      = length (map (\<lambda>v. Done (v, None)) values)" by simp
next
  fix i
  assume "i < length (map (\<lambda>n. RoundRobin (td\<lparr>RequestNumber := int n\<rparr>) values) [0..<length values])"
  then have i: "i < length values" by simp
  then have ne: "values \<noteq> []" by auto
  have "RoundRobin (td\<lparr>RequestNumber := int i\<rparr>) values = Done (values ! i, None)"
    using RoundRobin_nonneg [OF ne, of "td\<lparr>RequestNumber := int i\<rparr>"] i
    by simp
  with i show "map (\<lambda>n. RoundRobin (td\<lparr>RequestNumber := int n\<rparr>) values) [0..<length values] ! i
      = map (\<lambda>v. Done (v, None)) values ! i" by simp
qed

lemma RoundRobin_error_iff:
  "(\<exists>v e. RoundRobin td values = Done (v, Some e)) \<longleftrightarrow> values = []"
  by (auto simp: RoundRobin_def index_expr_def split: run.splits if_splits)

text \<open>
  Claim C3, as amended.  For a non-empty sequence and a call template data whose
  \<open>RequestNumber\<close> is not negative, RoundRobin returns the element at index
  \<open>RequestNumber mod len\<close> with a nil error; being a function of the sequence and the
  request number it returns the same element for the same pair.  Letting the request
  number run over \<open>0, \<dots>, len - 1\<close> returns the elements of the sequence one by one, each
  position once.  For every request number, an error is returned exactly when the
  sequence is empty.
\<close>

theorem RoundRobin_cyclic:
  "(values \<noteq> [] \<and> 0 \<le> RequestNumber td \<longrightarrow>
      RoundRobin td values
        = Done (values ! nat (RequestNumber td mod int (length values)), None))
   \<and> map (\<lambda>n. RoundRobin (td\<lparr>RequestNumber := int n\<rparr>) values) [0..<length values]
       = map (\<lambda>v. Done (v, None)) values
   \<and> ((\<exists>v e. RoundRobin td values = Done (v, Some e)) \<longleftrightarrow> values = [])"
  using RoundRobin_nonneg [of "values" td] RoundRobin_visits [of td "values"]
    RoundRobin_error_iff [of td "values"]
  by blast

theorem RoundRobin_cyclic_witness:
  "[''a'', ''b'', ''c''] \<noteq> [] \<and> 0 \<le> RequestNumber sample_td
   \<and> RoundRobin sample_td [''a'', ''b'', ''c''] = Done (''b'', None)
   \<and> map (\<lambda>n. RoundRobin (sample_td\<lparr>RequestNumber := int n\<rparr>) [''a'', ''b'', ''c''])
         [0..<length [''a'', ''b'', ''c'']]
       = [Done (''a'', None), Done (''b'', None), Done (''c'', None)]"
  using RoundRobin_cyclic [of "[''a'', ''b'', ''c'']" sample_td]
  by (simp add: sample_td_def)

text \<open>
  The claim C3 as it is written covers every call template data.  At the request number
  \<open>-1\<close> and a sequence of two elements the index \<open>-1 mod 2\<close> is \<open>1\<close>, but the call panics
  instead of returning the element at that index.
\<close>

theorem RoundRobin_every_context_counterexample:
  "[''a'', ''b''] \<noteq> []
   \<and> [''a'', ''b''] ! nat (RequestNumber (sample_td\<lparr>RequestNumber := - 1\<rparr>)
                            mod int (length [''a'', ''b''])) = ''b''
   \<and> RoundRobin (sample_td\<lparr>RequestNumber := - 1\<rparr>) [''a'', ''b''] = Panic IndexOutOfRange"
  by (simp add: RoundRobin_def index_expr_def signed_modulo_int_def)

text \<open>
  Claim C9.  For a non-empty sequence and a negative \<open>RequestNumber\<close> whose remainder
  modulo the length is not zero, the index \<^verbatim>\<open>RequestNumber % len(values)\<close> is negative and
  the element access panics; no value and no error is returned.
\<close>

theorem RoundRobin_negative_index:
  assumes "values \<noteq> []" "RequestNumber td < 0"
    and "RequestNumber td smod int (length values) \<noteq> 0"
  shows "RequestNumber td smod int (length values) < 0
       \<and> RoundRobin td values = Panic IndexOutOfRange"
proof -
  let ?n = "int (length values)"
  from assms(1) have pos: "0 < ?n" by simp
  have eq: "RequestNumber td smod ?n = - ((- RequestNumber td) mod ?n)"
    using assms(2) pos by (rule smod_neg)
  have "0 \<le> (- RequestNumber td) mod ?n" using pos by simp
  with assms(3) eq have neg: "RequestNumber td smod ?n < 0" by linarith
  then show ?thesis using pos by (simp add: RoundRobin_def index_expr_def)
qed

theorem RoundRobin_negative_index_witness:
  "[''a'', ''b'', ''c''] \<noteq> []
   \<and> RequestNumber (sample_td\<lparr>RequestNumber := - 7\<rparr>) < 0
   \<and> RequestNumber (sample_td\<lparr>RequestNumber := - 7\<rparr>) smod int (length [''a'', ''b'', ''c'']) = - 1
   \<and> RoundRobin (sample_td\<lparr>RequestNumber := - 7\<rparr>) [''a'', ''b'', ''c''] = Panic IndexOutOfRange"
  using RoundRobin_negative_index [of "[''a'', ''b'', ''c'']" "sample_td\<lparr>RequestNumber := - 7\<rparr>"]
  by (simp add: signed_modulo_int_def)

section \<open>RandomSliceK\<close>

text \<open>
  Claim C5.  For \<open>k > 0\<close>, RandomSliceK returns an error exactly when the sequence is
  shorter than \<open>k\<close>; a sequence of length \<open>k\<close> is returned whole; and for a longer
  sequence and every start \<open>r\<close> that \<^verbatim>\<open>rand.Intn(len - k)\<close> can draw, the result is the
  window \<open>[r, r + k)\<close> of the input: it has length \<open>k\<close> and the input is some prefix of
  length \<open>r\<close>, then the result, then some suffix.
\<close>

theorem RandomSliceK_window:
  assumes "0 < k" "is_int k" "is_int (int (length values))"
  shows "((\<exists>v e. RandomSliceK values k r = Done (v, Some e)) \<longleftrightarrow> int (length values) < k)
       \<and> (int (length values) = k \<longrightarrow> RandomSliceK values k r = Done (values, None))
       \<and> (k < int (length values) \<and> drawn (int (length values) - k) r \<longrightarrow>
            RandomSliceK values k r = Done (take (nat k) (drop (nat r) values), None)
            \<and> length (take (nat k) (drop (nat r) values)) = nat k
            \<and> (\<exists>pre post. values = pre @ take (nat k) (drop (nat r) values) @ post
                  \<and> length pre = nat r))"
proof (intro conjI impI)
  show "(\<exists>v e. RandomSliceK values k r = Done (v, Some e)) \<longleftrightarrow> int (length values) < k"
    by (auto simp: RandomSliceK_def Intn_def slice_expr_def Let_def split: run.splits if_splits)
next
  assume "int (length values) = k"
  then show "RandomSliceK values k r = Done (values, None)"
    by (simp add: RandomSliceK_def)
next
  assume a: "k < int (length values) \<and> drawn (int (length values) - k) r"
  then have r: "0 \<le> r" "r + k < int (length values)" by (auto simp: drawn_def)
  have w1: "wrap64 (int (length values) - k) = int (length values) - k"
    using assms a by (intro wrap64_id) (auto simp: is_int_def)
  have w2: "wrap64 (r + k) = r + k"
    using assms r by (intro wrap64_id) (auto simp: is_int_def)
  show "RandomSliceK values k r = Done (take (nat k) (drop (nat r) values), None)"
    using a r assms(1) by (simp add: RandomSliceK_def Intn_def slice_expr_def w1 w2 drawn_def)
  show "length (take (nat k) (drop (nat r) values)) = nat k"
    using r assms(1) by simp
  have "length (take (nat r) values) = nat r" using r assms(1) by simp
  with window_split [of "values" "nat r" "nat k"]
  show "\<exists>pre post. values = pre @ take (nat k) (drop (nat r) values) @ post \<and> length pre = nat r"
    by blast
qed

theorem RandomSliceK_window_witness:
  "(0::int) < 2 \<and> is_int 2 \<and> is_int (int (length [''a'', ''b'', ''c'', ''d'']))
   \<and> 2 < int (length [''a'', ''b'', ''c'', ''d''])
   \<and> drawn (int (length [''a'', ''b'', ''c'', ''d'']) - 2) 1
   \<and> RandomSliceK [''a'', ''b'', ''c'', ''d''] 2 1 = Done ([''b'', ''c''], None)
   \<and> RandomSliceK [''a'', ''b''] 2 1 = Done ([''a'', ''b''], None)
   \<and> RandomSliceK [''a''] 2 1 = Done ([], Some ''values must be longer than k'')"
  using RandomSliceK_window [of 2 "[''a'', ''b'', ''c'', ''d'']" 1]
  by (simp add: is_int_def drawn_def RandomSliceK_def)

text \<open>
  Claim C10.  For a non-empty sequence and \<open>k < 0\<close> neither \<^verbatim>\<open>len(values) < k\<close> nor
  \<^verbatim>\<open>len(values) == k\<close> holds, and for every start \<open>r\<close> that
  \<^verbatim>\<open>rand.Intn(len(values) - k)\<close> can draw the end \<open>r + k\<close> lies below the start, so the
  slice expression panics.  No draw and no \<open>k < 0\<close> lets the call return: it always panics
  (in \<^verbatim>\<open>rand.Intn\<close> itself when \<open>len(values) - k\<close> leaves the range of \<^verbatim>\<open>int\<close>).
\<close>

theorem RandomSliceK_negative_k:
  assumes "values \<noteq> []" "k < 0" "is_int k"
  shows "\<not> int (length values) < k \<and> int (length values) \<noteq> k
       \<and> (drawn (wrap64 (int (length values) - k)) r \<longrightarrow>
             wrap64 (r + k) = r + k \<and> r + k < r
             \<and> RandomSliceK values k r = Panic SliceBoundsOutOfRange)
       \<and> (\<exists>p. RandomSliceK values k r = Panic p)"
proof (intro conjI impI)
  show "\<not> int (length values) < k" "int (length values) \<noteq> k" using assms(2) by simp_all
next
  assume d: "drawn (wrap64 (int (length values) - k)) r"
  from wrap64_range [of "int (length values) - k"] d
  have "0 \<le> r" "r < 2 ^ 63" by (auto simp: drawn_def is_int_def)
  with assms show w: "wrap64 (r + k) = r + k" by (intro wrap64_id) (auto simp: is_int_def)
  show "r + k < r" using assms(2) by simp
  show "RandomSliceK values k r = Panic SliceBoundsOutOfRange"
    using d assms(2) by (simp add: RandomSliceK_def Intn_def slice_expr_def w drawn_def)
next
  show "\<exists>p. RandomSliceK values k r = Panic p"
  proof (cases "0 \<le> r \<and> r < 2 ^ 63")
    case True
    with assms have "wrap64 (r + k) = r + k" by (intro wrap64_id) (auto simp: is_int_def)
    then show ?thesis
      using assms(2) by (simp add: RandomSliceK_def Intn_def slice_expr_def)
  next
    case False
    from wrap64_range [of "r + k"] have "wrap64 (r + k) < 2 ^ 63" by (simp add: is_int_def)
    with False have "\<not> (0 \<le> r \<and> r \<le> wrap64 (r + k))" by linarith
    then show ?thesis
      using assms(2) by (auto simp: RandomSliceK_def Intn_def slice_expr_def)
  qed
qed

theorem RandomSliceK_negative_k_witness:
  "[''a'', ''b'', ''c''] \<noteq> [] \<and> (- 1 :: int) < 0 \<and> is_int (- 1)
   \<and> drawn (wrap64 (int (length [''a'', ''b'', ''c'']) - (- 1))) 2
   \<and> RandomSliceK [''a'', ''b'', ''c''] (- 1) 2 = Panic SliceBoundsOutOfRange"
  using RandomSliceK_negative_k [of "[''a'', ''b'', ''c'']" "- 1" 2]
  by (simp add: is_int_def drawn_def wrap64_def)

section \<open>RandomSlice\<close>

lemma RandomSlice_error_iff:
  "(\<exists>v e. RandomSlice values a b = Done (v, Some e)) \<longleftrightarrow> values = []"
  by (auto simp: RandomSlice_def Intn_def slice_expr_def Let_def
      split: run.splits if_splits prod.splits)

text \<open>
  Claim C6.  RandomSlice returns an error exactly when the sequence is empty.  For a
  non-empty sequence and draws \<open>a\<close>, \<open>b\<close> of \<^verbatim>\<open>rand.Intn(len)\<close>, the bounds
  \<open>(start, end)\<close> are \<open>(b, a)\<close> when \<open>a > b\<close>, \<open>(0, 1)\<close> when \<open>a = b = 0\<close>,
  \<open>(a - 1, b)\<close> when \<open>a = b \<noteq> 0\<close>, and \<open>(a, b)\<close> otherwise; they satisfy
  \<open>0 \<le> start < end \<le> len\<close>, and the result is the window \<open>[start, end)\<close> of the
  input, which is not empty.
\<close>

theorem RandomSlice_window:
  assumes "is_int (int (length values))"
  shows "((\<exists>v e. RandomSlice values a b = Done (v, Some e)) \<longleftrightarrow> values = [])
       \<and> (values \<noteq> [] \<and> drawn (int (length values)) a \<and> drawn (int (length values)) b \<longrightarrow>
            (\<exists>start end.
               (start, end) =
                 (if a > b then (b, a)
                  else if a = b then (if a = 0 then (a, b + 1) else (a - 1, b))
                  else (a, b))
               \<and> 0 \<le> start \<and> start < end \<and> end \<le> int (length values)
               \<and> RandomSlice values a b
                     = Done (take (nat (end - start)) (drop (nat start) values), None)
               \<and> take (nat (end - start)) (drop (nat start) values) \<noteq> []
               \<and> (\<exists>pre post.
                     values = pre @ take (nat (end - start)) (drop (nat start) values) @ post
                     \<and> length pre = nat start)))"
proof (intro conjI impI)
  show "(\<exists>v e. RandomSlice values a b = Done (v, Some e)) \<longleftrightarrow> values = []"
    by (rule RandomSlice_error_iff)
next
  assume h: "values \<noteq> [] \<and> drawn (int (length values)) a \<and> drawn (int (length values)) b"
  let ?n = "int (length values)"
  from h have ab: "0 \<le> a" "a < ?n" "0 \<le> b" "b < ?n" "0 < ?n"
    by (auto simp: drawn_def)
  define start where
    "start = (if a > b then b else if a = b then (if a = 0 then a else a - 1) else a)"
  define endi where
    "endi = (if a > b then a else if a = b then (if a = 0 then b + 1 else b) else b)"
  have pair: "(start, endi) =
      (if a > b then (b, a) else if a = b then (if a = 0 then (a, b + 1) else (a - 1, b))
       else (a, b))"
    by (simp add: start_def endi_def)
  have bounds: "0 \<le> start" "start < endi" "endi \<le> ?n"
    using ab by (auto simp: start_def endi_def)
  have wb: "wrap64 (b + 1) = b + 1" "wrap64 (a - 1) = a - 1" if "a = b"
    using ab assms that by (auto intro!: wrap64_id simp: is_int_def)
  have res: "RandomSlice values a b
               = Done (take (nat (endi - start)) (drop (nat start) values), None)"
    using ab bounds wb
    by (auto simp: RandomSlice_def Intn_def slice_expr_def start_def endi_def)
  have ne: "take (nat (endi - start)) (drop (nat start) values) \<noteq> []"
    using bounds by auto
  have "length (take (nat start) values) = nat start" using bounds by simp
  with window_split [of "values" "nat start" "nat (endi - start)"]
  have sub: "\<exists>pre post.
      values = pre @ take (nat (endi - start)) (drop (nat start) values) @ post
      \<and> length pre = nat start"
    by blast
  show "\<exists>start end.
               (start, end) =
                 (if a > b then (b, a)
                  else if a = b then (if a = 0 then (a, b + 1) else (a - 1, b))
                  else (a, b))
               \<and> 0 \<le> start \<and> start < end \<and> end \<le> int (length values)
               \<and> RandomSlice values a b
                     = Done (take (nat (end - start)) (drop (nat start) values), None)
               \<and> take (nat (end - start)) (drop (nat start) values) \<noteq> []
               \<and> (\<exists>pre post.
                     values = pre @ take (nat (end - start)) (drop (nat start) values) @ post
                     \<and> length pre = nat start)"
    apply (rule exI [of _ start])
    apply (rule exI [of _ endi])
    using pair bounds res ne sub by blast
qed

theorem RandomSlice_window_witness:
  "is_int (int (length [''a'', ''b'', ''c''])) \<and> [''a'', ''b'', ''c''] \<noteq> []
   \<and> drawn (int (length [''a'', ''b'', ''c''])) 2 \<and> drawn (int (length [''a'', ''b'', ''c''])) 2
   \<and> RandomSlice [''a'', ''b'', ''c''] 2 2 = Done ([''b''], None)
   \<and> RandomSlice [''a'', ''b'', ''c''] 0 0 = Done ([''a''], None)
   \<and> RandomSlice [''a'', ''b'', ''c''] 2 0 = Done ([''a'', ''b''], None)"
  using RandomSlice_window [of "[''a'', ''b'', ''c'']" 2 2]
  by (simp add: is_int_def drawn_def RandomSlice_def Intn_def slice_expr_def wrap64_def)

section \<open>Range\<close>

lemma Range_guard: "step \<le> 0 \<or> step \<le> start \<Longrightarrow> Range start end step = Some (Done [])"
  by (auto simp: Range_def)

lemma Range_loop_progression:
  assumes "0 < step" "is_int end" "end + step \<le> 2 ^ 63" "is_int start"
  shows "Range_loop start end step res = Some (res @ map Itoa (progression start end step))"
  using assms
proof (induction start "end" step arbitrary: res rule: progression.induct)
  case (1 start "end" step)
  show ?case
  proof (cases "start < end")
    case True
    have nx: "is_int (start + step)"
      using True 1(2-) by (auto simp: is_int_def)
    then have w: "wrap64 (start + step) = start + step" by (rule wrap64_id)
    have "Range_loop start end step res
            = Range_loop (start + step) end step (res @ [Itoa start])"
      using True by (subst Range_loop.simps) (simp add: w)
    also have "\<dots> = Some ((res @ [Itoa start])
                           @ map Itoa (progression (start + step) end step))"
      using True 1(2-) nx by (intro "1.IH") auto
    also have "\<dots> = Some (res @ map Itoa (progression start end step))"
      using True 1(2) by (subst (2) progression.simps) simp
    finally show ?thesis .
  next
    case False
    then show ?thesis
      by (subst Range_loop.simps, subst progression.simps) simp
  qed
qed

text \<open>
  Where the guard lets the call through, the capacity given to \<^verbatim>\<open>make\<close> is not negative
  and the running value cannot leave the range of \<^verbatim>\<open>int\<close>, the loop ends and Range
  returns the decimal strings of the progression.
\<close>

lemma Range_progression:
  assumes "0 < step" "start < step" "is_int start" "is_int end" "end + step \<le> 2 ^ 63"
    and "0 \<le> wrap64 (wrap64 (wrap64 (end - start) sdiv step) + 1)"
  shows "Range start end step = Some (Done (map Itoa (progression start end step)))"
  using assms Range_loop_progression [of step "end" start "[]"]
  by (simp add: Range_def Let_def)

lemma Range_example: "Range (- 3) 4 3 = Some (Done [''-3'', ''0'', ''3''])"
  by (simp add: Range_def wrap64_def signed_divide_int_def Range_loop.simps Itoa_def udec.simps)

text \<open>
  Claim C4 at the input \<open>start = 0\<close>, \<open>end = -2\<close>, \<open>step = 1\<close>.  Neither \<open>step \<le> 0\<close> nor
  \<open>start \<ge> step\<close> holds and no value of the progression lies below \<open>end\<close>, so the claim
  asks for the empty sequence.  The capacity \<^verbatim>\<open>(end-start)/step+1\<close> is \<open>-1\<close> and
  \<^verbatim>\<open>make\<close> panics before the loop is reached.
\<close>

theorem Range_negative_capacity:
  "Range 0 (- 2) 1 = Some (Panic MakesliceCapOutOfRange) \<and> progression 0 (- 2) 1 = []"
  by (simp add: Range_def wrap64_def signed_divide_int_def progression.simps)

section \<open>Construction of the call template data\<close>

lemma Nil_uuid_bytes: "Nil_uuid = [0, 0, 0, 0, 0, 0, 0, 0, 0, 0, 0, 0, 0, 0, 0, 0]"
  unfolding Nil_uuid_def by code_simp

lemma uuid_String_Nil: "uuid_String Nil_uuid = ''00000000-0000-0000-0000-000000000000''"
  by (simp add: uuid_String_def Nil_uuid_bytes hex_Encode_def)

text \<open>
  Claim C7, as amended.  \<^verbatim>\<open>newCallTemplateData\<close> returns a call template data for every
  descriptor, worker identifier, request number, clock reading and outcome of the
  identifier generator.  The error of the generator is dropped: the result is the same
  as without the error, and its \<open>UUID\<close> field is the string form of the value that the
  generator returned with the error, which for the nil identifier is the 36 characters
  \<open>00000000-0000-0000-0000-000000000000\<close>.
\<close>

theorem newCallTemplateData_total:
  "newCallTemplateData mtd workerID reqNum now (u, err)
     = newCallTemplateData mtd workerID reqNum now (u, None)
   \<and> WorkerID (newCallTemplateData mtd workerID reqNum now (u, err)) = workerID
   \<and> RequestNumber (newCallTemplateData mtd workerID reqNum now (u, err)) = reqNum
   \<and> UUID (newCallTemplateData mtd workerID reqNum now (u, err)) = uuid_String u
   \<and> UUID (newCallTemplateData mtd workerID reqNum now (Nil_uuid, err))
       = ''00000000-0000-0000-0000-000000000000''"
  by (simp add: newCallTemplateData_def uuid_String_Nil)

text \<open>
  The claim C7 as it is written has the \<open>UUID\<close> field fall back to an empty value.  When
  the generator fails and returns the nil identifier, the field is not the empty string:
  it holds 36 characters.
\<close>

theorem newCallTemplateData_empty_uuid_counterexample:
  "UUID (newCallTemplateData sample_mtd ''w1'' 4 sample_now (Nil_uuid, Some ''unexpected EOF''))
     \<noteq> []
   \<and> length (UUID (newCallTemplateData sample_mtd ''w1'' 4 sample_now
                      (Nil_uuid, Some ''unexpected EOF''))) = 36"
  by (simp add: newCallTemplateData_def uuid_String_Nil)

section \<open>Rendering of data and metadata\<close>

lemmas sample_defs = field_engine_def field_Parse_def field_value_def flat_json_def dq_def
  letter_def plain_def sample_td_def

text \<open>
  When the parser accepts a non-empty template, \<^verbatim>\<open>executeData\<close> returns the rendered
  bytes if the execution succeeded and the bytes of the template text if it failed, with
  a nil error in both cases.
\<close>

lemma executeData_parsed:
  assumes "data \<noteq> []" "Parse eng data = Inr t" "Execute eng t td = (tpl, err)"
  shows "executeData eng td data parsed
           = (Done (if err = None then tpl else data, None), parsed @ [data])"
  using assms by (simp add: executeData_def execute_def)

lemma executeData_examples:
  "executeData field_engine sample_td ''id-{{.RequestNumber}}'' []
     = (Done (''id-4'', None), [''id-{{.RequestNumber}}''])"
  "executeData field_engine sample_td ''id-{{.Nope}}'' []
     = (Done (''id-{{.Nope}}'', None), [''id-{{.Nope}}''])"
  by (simp_all add: executeData_def execute_def sample_defs Itoa_def udec.simps)

text \<open>
  Claim C1, where the code departs from it.  When the parser rejects a non-empty
  template, \<^verbatim>\<open>template.Must\<close> panics with the parse error inside \<^verbatim>\<open>execute\<close>, and
  \<^verbatim>\<open>executeData\<close> panics with it: it returns neither the template text nor a nil error.
\<close>

theorem executeData_parse_error_panics:
  assumes "data \<noteq> []" "Parse eng data = Inl err"
  shows "executeData eng td data parsed = (Panic (TemplateMust err), parsed @ [data])"
  using assms by (simp add: executeData_def execute_def)

theorem executeData_parse_error_panics_witness:
  "''{{'' \<noteq> [] \<and> Parse field_engine ''{{'' = Inl ''unclosed action''
   \<and> executeData field_engine sample_td ''{{'' []
       = (Panic (TemplateMust ''unclosed action''), [''{{''])"
  using executeData_parse_error_panics
    [of "''{{''" field_engine "''unclosed action''" sample_td "[]"]
  by (simp add: sample_defs)

text \<open>
  Claim C2, as amended.  For a non-empty metadata template that the parser accepts, the
  bytes given to the decoder are the rendered bytes if the execution succeeded and the
  bytes of the template text if it failed.  If the decoder rejects them,
  \<^verbatim>\<open>executeMetadata\<close> returns a nil map pointer and the error of the decoder; if it
  accepts them, \<^verbatim>\<open>executeMetadata\<close> returns the decoded mapping and a nil error, also
  when the execution had failed.
\<close>

theorem executeMetadata_decodes:
  assumes "metadata \<noteq> []" "Parse eng metadata = Inr t" "Execute eng t td = (tpl, err)"
  shows "(\<forall>e. Unmarshal (if err = None then tpl else metadata) = Inl e \<longrightarrow>
            executeMetadata eng Unmarshal td metadata parsed
              = (Done (None, Some e), parsed @ [metadata]))
       \<and> (\<forall>m. Unmarshal (if err = None then tpl else metadata) = Inr m \<longrightarrow>
            executeMetadata eng Unmarshal td metadata parsed
              = (Done (Some m, None), parsed @ [metadata]))"
  using assms by (simp add: executeMetadata_def execute_def)

theorem executeMetadata_decodes_witness:
  "md_worker \<noteq> []
   \<and> Parse field_engine md_worker
       = Inr [TextNode (''{'' @ dq @ ''k'' @ dq @ '':'' @ dq), ActionNode ''.WorkerID'',
              TextNode (dq @ ''}'')]
   \<and> Execute field_engine
         [TextNode (''{'' @ dq @ ''k'' @ dq @ '':'' @ dq), ActionNode ''.WorkerID'',
          TextNode (dq @ ''}'')] sample_td
       = (''{'' @ dq @ ''k'' @ dq @ '':'' @ dq @ ''w1'' @ dq @ ''}'', None)
   \<and> flat_json (''{'' @ dq @ ''k'' @ dq @ '':'' @ dq @ ''w1'' @ dq @ ''}'')
       = Inr (Mapping.update ''k'' ''w1'' Mapping.empty)
   \<and> executeMetadata field_engine flat_json sample_td md_worker []
       = (Done (Some (Mapping.update ''k'' ''w1'' Mapping.empty), None), [md_worker])"
  using executeMetadata_decodes [of md_worker field_engine
      "[TextNode (''{'' @ dq @ ''k'' @ dq @ '':'' @ dq), ActionNode ''.WorkerID'',
        TextNode (dq @ ''}'')]"
      sample_td "''{'' @ dq @ ''k'' @ dq @ '':'' @ dq @ ''w1'' @ dq @ ''}''" None flat_json "[]"]
  by (simp add: sample_defs md_worker_def)

lemma executeMetadata_not_json:
  "executeMetadata field_engine flat_json sample_td ''not-json'' []
     = (Done (None, Some ''invalid character in JSON object''), [''not-json''])"
  by (simp add: executeMetadata_def execute_def sample_defs)

text \<open>
  The claim C2 as it is written has every failed execution surface as an error.  The
  template \<open>md_unknown\<close> is accepted by the parser and its execution fails at the unknown
  field, but the template text is itself an object of strings: \<^verbatim>\<open>executeMetadata\<close>
  returns the mapping decoded from the template text, with a nil error.
\<close>

theorem executeMetadata_silent_fallback_counterexample:
  "md_unknown \<noteq> []
   \<and> Parse field_engine md_unknown
       = Inr [TextNode (''{'' @ dq @ ''k'' @ dq @ '':'' @ dq), ActionNode ''.Nope'',
              TextNode (dq @ ''}'')]
   \<and> Execute field_engine
         [TextNode (''{'' @ dq @ ''k'' @ dq @ '':'' @ dq), ActionNode ''.Nope'',
          TextNode (dq @ ''}'')] sample_td
       = (''{'' @ dq @ ''k'' @ dq @ '':'' @ dq, Some ''cannot evaluate field Nope'')
   \<and> executeMetadata field_engine flat_json sample_td md_unknown []
       = (Done (Some (Mapping.update ''k'' ''{{.Nope}}'' Mapping.empty), None), [md_unknown])"
  by (simp add: executeMetadata_def execute_def sample_defs md_unknown_def)

text \<open>
  Claim C8.  For the empty template \<^verbatim>\<open>executeData\<close> returns no bytes and a nil error, and
  \<^verbatim>\<open>executeMetadata\<close> returns the empty mapping and a nil error, whatever the engine and
  the decoder are; the record of the texts handed to the parser is unchanged, so the
  parser has not been invoked.
\<close>

theorem empty_template_fast_path:
  "executeData eng td [] parsed = (Done ([], None), parsed)
   \<and> executeMetadata eng Unmarshal td [] parsed = (Done (Some Mapping.empty, None), parsed)"
  by (simp add: executeData_def executeMetadata_def)

end
